theory Spec2Isabelle
  imports Main
begin

section \<open>Data model of \<^verbatim>\<open>src/pages/teacher/TeachingAndLearning.tsx\<close>\<close>

text \<open>
  The page keeps two pieces of React state (\<^verbatim>\<open>entries\<close>, \<^verbatim>\<open>teacherId\<close>), reads the
  session user from the auth store, and talks to three Firestore collections:
  \<^verbatim>\<open>teachers\<close>, \<^verbatim>\<open>TeachingLearning\<close> and \<^verbatim>\<open>activityLogs\<close>. Every remote call can
  throw. The model threads one \<open>world\<close> record through every function; a function of
  the source that can throw returns a sum whose left summand is the exception together
  with the world at the moment it was thrown.
\<close>

datatype exn = FirestoreError | TypeError

datatype console_line =
    Info string
  | Err string
  | ErrExn string exn

text \<open>
  The object \<^verbatim>\<open>newEntry\<close> of \<^verbatim>\<open>addOrUpdateEntry\<close>, which is also the data of a document
  of the collection \<^verbatim>\<open>TeachingLearning\<close>. The field \<^verbatim>\<open>section\<close> is written
  \<open>section_field\<close>.
\<close>

record doc_data =
  category :: string
  title :: string
  className :: string
  section_field :: string
  description :: string
  url :: string
  teacherId :: string

text \<open>The client-side \<^verbatim>\<open>Entry\<close>: the document's data and its identifier \<^verbatim>\<open>id\<close>.\<close>

record Entry = doc_data +
  entry_id :: string

text \<open>The object \<^verbatim>\<open>logEntry\<close> of \<^verbatim>\<open>logActivity\<close>.\<close>

record logEntry =
  actionType :: string
  entity :: string
  log_description :: string
  timestamp :: nat
  userId :: "string option"

text \<open>The \<^verbatim>\<open>formData\<close> state of a \<^verbatim>\<open>Card\<close>.\<close>

record formData =
  form_id :: string
  form_title :: string
  form_className :: string
  form_section :: string
  form_description :: string
  form_url :: string

record card =
  showForm :: bool
  formData :: formData
  viewMore :: bool

record authUser =
  user_id :: string

text \<open>
  \<^verbatim>\<open>Record<string, Entry[]>\<close>, written as an object literal: the own properties in the
  order of the literal.
\<close>

type_synonym buckets = "(string \<times> Entry list) list"

text \<open>The remote calls the module issues, and how each one ended.\<close>

datatype call =
    GetDoc string
  | GetDocs string
  | AddDoc doc_data
  | UpdateDoc string doc_data
  | DeleteDoc string
  | AddLog logEntry

datatype outcome = Succeeded | Failed

record world =
  user :: "authUser option"
  entries :: buckets
  teacherId_st :: "string option"
  teachers :: "string list"
  teachingLearning :: "(string \<times> doc_data) list"
  activityLogs :: "logEntry list"
  clock :: nat
  calls :: "(call \<times> outcome) list"
  faults :: "nat list"
  console :: "console_line list"
  unhandled :: "exn list"

type_synonym 'a result = "(exn \<times> world) + ('a \<times> world)"

section \<open>JavaScript and the document store\<close>

text \<open>Truthiness of a value of type \<^verbatim>\<open>string | null | undefined\<close>.\<close>

definition truthy :: "string option \<Rightarrow> bool" where
  "truthy v = (case v of None \<Rightarrow> False | Some s \<Rightarrow> s \<noteq> [])"

text \<open>\<^verbatim>\<open>a || b\<close> on strings.\<close>

definition js_or :: "string \<Rightarrow> string \<Rightarrow> string" where
  "js_or a b = (if a \<noteq> [] then a else b)"

text \<open>
  The property names every object literal inherits from \<^verbatim>\<open>Object.prototype\<close>
  (ECMAScript, with Annex B). Each is a function, or for \<^verbatim>\<open>__proto__\<close> the prototype
  object itself: a truthy value with no \<^verbatim>\<open>push\<close> method.
\<close>

definition object_prototype_keys :: "string list" where
  "object_prototype_keys =
     [''constructor'', ''hasOwnProperty'', ''isPrototypeOf'', ''propertyIsEnumerable'',
      ''toLocaleString'', ''toString'', ''valueOf'', ''__proto__'',
      ''__defineGetter__'', ''__defineSetter__'', ''__lookupGetter__'',
      ''__lookupSetter__'']"

text \<open>What \<^verbatim>\<open>updatedEntries[key]\<close> evaluates to: an own array, an inherited member, or
  \<^verbatim>\<open>undefined\<close>.\<close>

datatype lookup = Own "Entry list" | Inherited | Undefined

definition js_lookup :: "buckets \<Rightarrow> string \<Rightarrow> lookup" where
  "js_lookup obj k =
     (case map_of obj k of
        Some xs \<Rightarrow> Own xs
      | None \<Rightarrow> if k \<in> set object_prototype_keys then Inherited else Undefined)"

text \<open>\<^verbatim>\<open>obj[k].push(e)\<close> for an own property \<open>k\<close> holding the array \<open>xs\<close>.\<close>

fun push_to :: "string \<Rightarrow> Entry \<Rightarrow> buckets \<Rightarrow> buckets" where
  "push_to k e [] = []"
| "push_to k e ((k', xs) # rest) =
     (if k' = k then (k', xs @ [e]) # rest else (k', xs) # push_to k e rest)"

definition dquote :: char where
  "dquote = CHR 0x22"

text \<open>
  A remote call fails when its position in the sequence of calls is listed in
  \<open>faults\<close> (a network or service error); \<^verbatim>\<open>updateDoc\<close> also fails when the document
  does not exist. Every call is recorded with its outcome.
\<close>

definition faulty :: "world \<Rightarrow> bool" where
  "faulty w = (length (calls w) \<in> set (faults w))"

definition record_call :: "call \<Rightarrow> outcome \<Rightarrow> world \<Rightarrow> world" where
  "record_call c out w = w\<lparr>calls := calls w @ [(c, out)]\<rparr>"

text \<open>\<^verbatim>\<open>getDoc(doc(db, "teachers", id))\<close>, then \<^verbatim>\<open>exists()\<close> on the snapshot.\<close>

definition getDoc :: "string \<Rightarrow> world \<Rightarrow> bool result" where
  "getDoc i w =
     (if faulty w then Inl (FirestoreError, record_call (GetDoc i) Failed w)
      else Inr (i \<in> set (teachers w), record_call (GetDoc i) Succeeded w))"

text \<open>\<^verbatim>\<open>getDocs(query(collection(db, "TeachingLearning"), where("teacherId", "==", t)))\<close>.\<close>

definition getDocs :: "string \<Rightarrow> world \<Rightarrow> (string \<times> doc_data) list result" where
  "getDocs t w =
     (if faulty w then Inl (FirestoreError, record_call (GetDocs t) Failed w)
      else Inr (filter (\<lambda>(i, d). teacherId d = t) (teachingLearning w),
                record_call (GetDocs t) Succeeded w))"

text \<open>
  The store assigns a new document an identifier that no document of the collection
  has; which one is immaterial below.
\<close>

definition fresh_id :: "(string \<times> doc_data) list \<Rightarrow> string" where
  "fresh_id docs = replicate (Suc (sum_list (map (\<lambda>(i, d). length i) docs))) (CHR ''x'')"

definition addDoc :: "doc_data \<Rightarrow> world \<Rightarrow> string result" where
  "addDoc d w =
     (if faulty w then Inl (FirestoreError, record_call (AddDoc d) Failed w)
      else Inr (fresh_id (teachingLearning w),
                record_call (AddDoc d) Succeeded
                  (w\<lparr>teachingLearning :=
                       teachingLearning w @ [(fresh_id (teachingLearning w), d)]\<rparr>)))"

text \<open>\<^verbatim>\<open>updateDoc\<close> writes the given fields into an existing document, and fails when
  there is none.\<close>

definition updateDoc :: "string \<Rightarrow> doc_data \<Rightarrow> world \<Rightarrow> unit result" where
  "updateDoc i d w =
     (if faulty w \<or> i \<notin> fst ` set (teachingLearning w)
      then Inl (FirestoreError, record_call (UpdateDoc i d) Failed w)
      else Inr ((), record_call (UpdateDoc i d) Succeeded
                  (w\<lparr>teachingLearning :=
                       map (\<lambda>(j, old). if j = i then (j, d) else (j, old))
                         (teachingLearning w)\<rparr>)))"

definition deleteDoc :: "string \<Rightarrow> world \<Rightarrow> unit result" where
  "deleteDoc i w =
     (if faulty w then Inl (FirestoreError, record_call (DeleteDoc i) Failed w)
      else Inr ((), record_call (DeleteDoc i) Succeeded
                  (w\<lparr>teachingLearning :=
                       filter (\<lambda>(j, d). j \<noteq> i) (teachingLearning w)\<rparr>)))"

text \<open>\<^verbatim>\<open>addDoc(collection(db, "activityLogs"), logEntry)\<close>.\<close>

definition addLog :: "logEntry \<Rightarrow> world \<Rightarrow> unit result" where
  "addLog l w =
     (if faulty w then Inl (FirestoreError, record_call (AddLog l) Failed w)
      else Inr ((), record_call (AddLog l) Succeeded
                  (w\<lparr>activityLogs := activityLogs w @ [l]\<rparr>)))"

section \<open>Control flow: sequencing, try/catch, calls that are not awaited\<close>

definition and_then :: "'a result \<Rightarrow> ('a \<Rightarrow> world \<Rightarrow> 'b result) \<Rightarrow> 'b result" where
  "and_then r f = (case r of Inl x \<Rightarrow> Inl x | Inr (a, w) \<Rightarrow> f a w)"

definition try_catch ::
  "(world \<Rightarrow> unit result) \<Rightarrow> (exn \<Rightarrow> world \<Rightarrow> unit result) \<Rightarrow> world \<Rightarrow> unit result" where
  "try_catch body handler w =
     (case body w of Inl (e, w') \<Rightarrow> handler e w' | Inr r \<Rightarrow> Inr r)"

text \<open>
  A call of an async function whose promise is dropped: a rejection does not reach the
  caller's \<^verbatim>\<open>catch\<close>, it becomes an unhandled rejection.
\<close>

definition not_awaited :: "(world \<Rightarrow> unit result) \<Rightarrow> world \<Rightarrow> unit result" where
  "not_awaited f w =
     (case f w of
        Inl (e, w') \<Rightarrow> Inr ((), w'\<lparr>unhandled := unhandled w' @ [e]\<rparr>)
      | Inr r \<Rightarrow> Inr r)"

definition console_write :: "console_line \<Rightarrow> world \<Rightarrow> unit result" where
  "console_write l w = Inr ((), w\<lparr>console := console w @ [l]\<rparr>)"

definition setTeacherId :: "string option \<Rightarrow> world \<Rightarrow> unit result" where
  "setTeacherId t w = Inr ((), w\<lparr>teacherId_st := t\<rparr>)"

definition setEntries :: "buckets \<Rightarrow> world \<Rightarrow> unit result" where
  "setEntries b w = Inr ((), w\<lparr>entries := b\<rparr>)"

section \<open>The module's functions\<close>

text \<open>\<^verbatim>\<open>logActivity\<close> (lines 7-27).\<close>

definition logActivity ::
  "string \<Rightarrow> string \<Rightarrow> string \<Rightarrow> string option \<Rightarrow> world \<Rightarrow> unit result" where
  "logActivity aType ent descr uid =
     try_catch
       (\<lambda>w. and_then
          (addLog \<lparr>actionType = aType, entity = ent, log_description = descr,
                   timestamp = clock w, userId = uid\<rparr> w)
          (\<lambda>_. console_write (Info ''Activity logged successfully!'')))
       (\<lambda>e. console_write (ErrExn ''Error logging activity:'' e))"

text \<open>The initial value of \<^verbatim>\<open>entries\<close>, and of \<^verbatim>\<open>updatedEntries\<close> in \<^verbatim>\<open>fetchEntries\<close>.\<close>

definition emptyEntries :: buckets where
  "emptyEntries =
     [(''Course Design'', []), (''Pedagogical Innovations'', []),
      (''Student Feedback'', []), (''Academic Results'', [])]"

text \<open>\<^verbatim>\<open>user?.id\<close>, and \<^verbatim>\<open>user?.id ?? null\<close>.\<close>

definition user_id_opt :: "world \<Rightarrow> string option" where
  "user_id_opt w = map_option user_id (user w)"

text \<open>\<^verbatim>\<open>fetchTeacherId\<close> (lines 43-61).\<close>

definition fetchTeacherId :: "world \<Rightarrow> unit result" where
  "fetchTeacherId =
     try_catch
       (\<lambda>w. case user_id_opt w of
               None \<Rightarrow> console_write (Err ''User ID is not available'') w
             | Some uid \<Rightarrow>
                 if uid = [] then console_write (Err ''User ID is not available'') w
                 else and_then (getDoc uid w)
                   (\<lambda>ex. if ex then setTeacherId (Some uid)
                          else console_write (Err ''Teacher document does not exist.'')))
       (\<lambda>e. console_write (ErrExn ''Error fetching teacher ID:'' e))"

text \<open>The callback of \<^verbatim>\<open>querySnapshot.forEach\<close> (lines 80-94) and the loop itself.\<close>

definition toEntry :: "string \<times> doc_data \<Rightarrow> Entry" where
  "toEntry x =
     (case x of (i, d) \<Rightarrow>
        \<lparr>category = category d, title = title d, className = className d,
         section_field = section_field d, description = description d, url = url d,
         teacherId = teacherId d, entry_id = i\<rparr>)"

definition push_doc :: "buckets \<Rightarrow> string \<times> doc_data \<Rightarrow> exn + buckets" where
  "push_doc updatedEntries x =
     (case js_lookup updatedEntries (category (snd x)) of
        Own xs \<Rightarrow> Inr (push_to (category (snd x)) (toEntry x) updatedEntries)
      | Inherited \<Rightarrow> Inl TypeError
      | Undefined \<Rightarrow> Inr updatedEntries)"

fun forEach :: "buckets \<Rightarrow> (string \<times> doc_data) list \<Rightarrow> exn + buckets" where
  "forEach updatedEntries [] = Inr updatedEntries"
| "forEach updatedEntries (x # xs) =
     (case push_doc updatedEntries x of
        Inl e \<Rightarrow> Inl e
      | Inr updatedEntries' \<Rightarrow> forEach updatedEntries' xs)"

text \<open>\<^verbatim>\<open>fetchEntries\<close> (lines 63-100).\<close>

definition fetchEntries :: "world \<Rightarrow> unit result" where
  "fetchEntries w =
     (case teacherId_st w of
        None \<Rightarrow> Inr ((), w)
      | Some t \<Rightarrow>
          if t = [] then Inr ((), w)
          else try_catch
                 (\<lambda>w. and_then (getDocs t w)
                    (\<lambda>querySnapshot w1.
                       case forEach emptyEntries querySnapshot of
                         Inl e \<Rightarrow> Inl (e, w1)
                       | Inr updatedEntries \<Rightarrow> setEntries updatedEntries w1))
                 (\<lambda>e. console_write (ErrExn ''Error fetching entries:'' e)) w)"

text \<open>\<^verbatim>\<open>validateForm\<close> (lines 108-110).\<close>

definition validateForm :: "formData \<Rightarrow> bool" where
  "validateForm fd =
     (form_title fd \<noteq> [] \<and> form_className fd \<noteq> [] \<and> form_section fd \<noteq> [] \<and>
      form_description fd \<noteq> [] \<and> form_url fd \<noteq> [])"

text \<open>The template literals of the audit descriptions.\<close>

definition describe :: "string \<Rightarrow> string \<Rightarrow> string \<Rightarrow> string" where
  "describe verb t c =
     verb @ '' titled '' @ [dquote] @ t @ [dquote] @ '' in the '' @ [dquote] @ c @
     [dquote] @ '' category''"

text \<open>\<^verbatim>\<open>addOrUpdateEntry\<close> (lines 112-158).\<close>

definition addOrUpdateEntry ::
  "string \<Rightarrow> string \<Rightarrow> string \<Rightarrow> string \<Rightarrow> string \<Rightarrow> string \<Rightarrow> string option \<Rightarrow>
   world \<Rightarrow> unit result" where
  "addOrUpdateEntry cat ttl cls sec descr link entryId w =
     (case teacherId_st w of
        None \<Rightarrow> Inr ((), w)
      | Some t \<Rightarrow>
          if t = [] then Inr ((), w)
          else
            let newEntry = \<lparr>category = cat, title = ttl, className = cls,
                  section_field = sec, description = descr, url = link, teacherId = t\<rparr>
            in try_catch
                 (\<lambda>w. and_then
                    (if truthy entryId
                     then and_then
                            (updateDoc (case entryId of Some i \<Rightarrow> i | None \<Rightarrow> []) newEntry w)
                            (\<lambda>_ w. logActivity ''Edit'' ''TeachingLearning''
                               (describe ''Edited an entry'' ttl cat) (user_id_opt w) w)
                     else and_then (addDoc newEntry w)
                            (\<lambda>_ w. logActivity ''Add'' ''TeachingLearning''
                               (describe ''Added a new entry'' ttl cat) (user_id_opt w) w))
                    (\<lambda>_. not_awaited fetchEntries))
                 (\<lambda>e. console_write
                    (ErrExn (if truthy entryId then ''Error updating entry:''
                             else ''Error adding entry:'') e)) w)"

text \<open>The \<^verbatim>\<open>onAddOrUpdate\<close> prop the page hands to the card of \<open>cat\<close> (lines 173-175).\<close>

definition onAddOrUpdate ::
  "string \<Rightarrow> string \<Rightarrow> string \<Rightarrow> string \<Rightarrow> string \<Rightarrow> string \<Rightarrow> string option \<Rightarrow>
   world \<Rightarrow> unit result" where
  "onAddOrUpdate cat ttl cls sec descr link entryId =
     addOrUpdateEntry cat ttl cls sec descr link entryId"

section \<open>The card\<close>

definition emptyForm :: formData where
  "emptyForm = \<lparr>form_id = [], form_title = [], form_className = [], form_section = [],
                form_description = [], form_url = []\<rparr>"

definition initialCard :: card where
  "initialCard = \<lparr>showForm = False, formData = emptyForm, viewMore = False\<rparr>"

text \<open>\<^verbatim>\<open>handleAddOrUpdate\<close> (lines 218-222), of the card whose \<^verbatim>\<open>title\<close> is \<open>cat\<close>. The
  promise of \<^verbatim>\<open>onAddOrUpdate\<close> is dropped.\<close>

definition handleAddOrUpdate :: "string \<Rightarrow> card \<Rightarrow> world \<Rightarrow> card \<times> unit result" where
  "handleAddOrUpdate cat c w =
     (c\<lparr>formData := emptyForm, showForm := False\<rparr>,
      not_awaited
        (onAddOrUpdate cat (form_title (formData c)) (form_className (formData c))
           (form_section (formData c)) (form_description (formData c))
           (form_url (formData c))
           (if form_id (formData c) \<noteq> [] then Some (form_id (formData c)) else None)) w)"

text \<open>\<^verbatim>\<open>handleEdit\<close> (lines 223-226); of the spread entry the form reads these fields.\<close>

definition handleEdit :: "Entry \<Rightarrow> card \<Rightarrow> card" where
  "handleEdit e c =
     c\<lparr>formData := \<lparr>form_id = entry_id e, form_title = title e,
                     form_className = className e,
                     form_section = js_or (section_field e) [],
                     form_description = description e, form_url = url e\<rparr>,
       showForm := True\<rparr>"

text \<open>The click handlers written inline: the button \<^verbatim>\<open>+\<close> (line 267) and
  \<^verbatim>\<open>Cancel\<close> (line 450).\<close>

definition toggleForm :: "card \<Rightarrow> card" where
  "toggleForm c = c\<lparr>showForm := \<not> showForm c\<rparr>"

definition cancelForm :: "card \<Rightarrow> card" where
  "cancelForm c = c\<lparr>showForm := False\<rparr>"

text \<open>\<^verbatim>\<open>handleDelete\<close> (lines 228-242).\<close>

definition handleDelete :: "string \<Rightarrow> string \<Rightarrow> string \<Rightarrow> world \<Rightarrow> unit result" where
  "handleDelete entryId ttl cat =
     try_catch
       (\<lambda>w. and_then
          (and_then (deleteDoc entryId w)
             (\<lambda>_ w. logActivity ''Delete'' ''TeachingLearning''
                (describe ''Deleted an entry'' ttl cat) (user_id_opt w) w))
          (\<lambda>_. not_awaited fetchEntries))
       (\<lambda>e. console_write (ErrExn ''Error deleting entry:'' e))"

section \<open>The page's effects and a session of user actions\<close>

text \<open>The initial values of the two \<^verbatim>\<open>useState\<close> hooks (lines 31-37).\<close>

definition initialState :: "world \<Rightarrow> world" where
  "initialState w = w\<lparr>entries := emptyEntries, teacherId_st := None\<rparr>"

text \<open>The effect on \<^verbatim>\<open>user?.id\<close> (lines 39-41) and the one on \<^verbatim>\<open>teacherId\<close>
  (lines 102-106); neither awaits the function it calls.\<close>

definition useEffect_user :: "world \<Rightarrow> unit result" where
  "useEffect_user w =
     (if truthy (user_id_opt w) then not_awaited fetchTeacherId w else Inr ((), w))"

definition useEffect_teacherId :: "world \<Rightarrow> unit result" where
  "useEffect_teacherId w =
     (if truthy (teacherId_st w) then not_awaited fetchEntries w else Inr ((), w))"

text \<open>
  Mounting the page: the state starts at its initial values, the first effect runs, and
  the second runs for the value of \<^verbatim>\<open>teacherId\<close> the first one leaves.
\<close>

definition mount :: "world \<Rightarrow> unit result" where
  "mount w = and_then (useEffect_user (initialState w)) (\<lambda>_. useEffect_teacherId)"

text \<open>
  The clicks that reach the store: \<^verbatim>\<open>Save\<close> on the card of a category, with that
  card's state, and \<^verbatim>\<open>Delete\<close> on a listed entry (line 349), whose promise is dropped.
\<close>

datatype ui_event =
    ClickSave string card
  | ClickDelete string string string

definition fire :: "ui_event \<Rightarrow> world \<Rightarrow> unit result" where
  "fire ev w =
     (case ev of
        ClickSave cat c \<Rightarrow> snd (handleAddOrUpdate cat c w)
      | ClickDelete i ttl cat \<Rightarrow> not_awaited (handleDelete i ttl cat) w)"

fun run_events :: "ui_event list \<Rightarrow> world \<Rightarrow> unit result" where
  "run_events [] w = Inr ((), w)"
| "run_events (ev # evs) w = and_then (fire ev w) (\<lambda>_. run_events evs)"

definition session_run :: "ui_event list \<Rightarrow> world \<Rightarrow> unit result" where
  "session_run evs w = and_then (mount w) (\<lambda>_. run_events evs)"

section \<open>Observations on a world\<close>

fun is_GetDoc :: "call \<times> outcome \<Rightarrow> bool" where
  "is_GetDoc (GetDoc i, out) = True"
| "is_GetDoc (c, out) = False"

fun is_GetDocs :: "call \<times> outcome \<Rightarrow> bool" where
  "is_GetDocs (GetDocs t, out) = True"
| "is_GetDocs (c, out) = False"

fun is_write :: "call \<times> outcome \<Rightarrow> bool" where
  "is_write (AddDoc d, out) = True"
| "is_write (UpdateDoc i d, out) = True"
| "is_write (DeleteDoc i, out) = True"
| "is_write (AddLog l, out) = True"
| "is_write (c, out) = False"

text \<open>How many remote calls failed, and how many caught exceptions the console shows.\<close>

definition failures :: "world \<Rightarrow> nat" where
  "failures w = length (filter (\<lambda>x. snd x = Failed) (calls w))"

fun is_caught :: "console_line \<Rightarrow> bool" where
  "is_caught (ErrExn m e) = True"
| "is_caught l = False"

definition caught :: "world \<Rightarrow> nat" where
  "caught w = length (filter is_caught (console w))"

text \<open>The array the card of category \<open>k\<close> is given: \<^verbatim>\<open>entries[category]\<close> (line 172).\<close>

definition bucket :: "buckets \<Rightarrow> string \<Rightarrow> Entry list" where
  "bucket b k = (case map_of b k of Some xs \<Rightarrow> xs | None \<Rightarrow> [])"

definition bucket_names :: "string list" where
  "bucket_names =
     [''Course Design'', ''Pedagogical Innovations'', ''Student Feedback'',
      ''Academic Results'']"

section \<open>Example data\<close>

definition exampleWorld :: world where
  "exampleWorld =
     \<lparr>user = Some \<lparr>user_id = ''u1''\<rparr>, entries = emptyEntries,
      teacherId_st = Some ''u1'', teachers = [''u1''], teachingLearning = [],
      activityLogs = [], clock = 0, calls = [], faults = [], console = [],
      unhandled = []\<rparr>"

definition exampleDoc :: "string \<Rightarrow> doc_data" where
  "exampleDoc cat =
     \<lparr>category = cat, title = ''Flipped Classroom'', className = ''2nd Year'',
      section_field = ''B'', description = ''notes'', url = ''https://example.com/doc'',
      teacherId = ''u1''\<rparr>"

definition exampleForm :: formData where
  "exampleForm =
     \<lparr>form_id = ''e1'', form_title = ''Flipped Classroom'', form_className = ''2nd Year'',
      form_section = ''B'', form_description = ''notes'',
      form_url = ''https://example.com/doc''\<rparr>"

definition storedWorld :: world where
  "storedWorld = exampleWorld\<lparr>teachingLearning := [(''e1'', exampleDoc ''Course Design'')]\<rparr>"

definition exampleClicks :: "ui_event list" where
  "exampleClicks =
     [ClickSave ''Course Design'' (initialCard\<lparr>formData := exampleForm\<rparr>),
      ClickDelete ''e1'' ''Flipped Classroom'' ''Course Design'']"

section \<open>Terms the statements below use\<close>

text \<open>The audit record \<^verbatim>\<open>logActivity\<close> is asked to write for action \<open>a\<close> with description
  \<open>d\<close> by the session user of \<open>w\<close>.\<close>

definition auditRecord :: "string \<Rightarrow> string \<Rightarrow> world \<Rightarrow> logEntry" where
  "auditRecord a d w =
     \<lparr>actionType = a, entity = ''TeachingLearning'', log_description = d,
      timestamp = clock w, userId = user_id_opt w\<rparr>"

text \<open>The object \<^verbatim>\<open>newEntry\<close> built from the arguments and the resolved teacher.\<close>

definition newEntryOf ::
  "string \<Rightarrow> string \<Rightarrow> string \<Rightarrow> string \<Rightarrow> string \<Rightarrow> string \<Rightarrow> string \<Rightarrow> doc_data" where
  "newEntryOf cat ttl cls sec descr link t =
     \<lparr>category = cat, title = ttl, className = cls, section_field = sec,
      description = descr, url = link, teacherId = t\<rparr>"

text \<open>The store mutation a save of form \<open>fd\<close> on the card of \<open>cat\<close> asks for.\<close>

definition mutationOf :: "string \<Rightarrow> formData \<Rightarrow> string \<Rightarrow> call" where
  "mutationOf cat fd t =
     (if form_id fd = []
      then AddDoc (newEntryOf cat (form_title fd) (form_className fd) (form_section fd)
                     (form_description fd) (form_url fd) t)
      else UpdateDoc (form_id fd)
             (newEntryOf cat (form_title fd) (form_className fd) (form_section fd)
                (form_description fd) (form_url fd) t))"

text \<open>
  An operation started in \<open>w\<close> swallowed every error: it returned normally, left no
  unhandled rejection, and the console gained at least one caught-exception line per
  remote call that failed.
\<close>

definition swallowed :: "world \<Rightarrow> unit result \<Rightarrow> bool" where
  "swallowed w r =
     (case r of
        Inl x \<Rightarrow> False
      | Inr (u, w') \<Rightarrow>
          unhandled w' = unhandled w \<and>
          failures w' + caught w \<le> caught w' + failures w)"

text \<open>The world an operation ends in, however it ends.\<close>

definition world_after :: "unit result \<Rightarrow> world" where
  "world_after r = (case r of Inl (e, w) \<Rightarrow> w | Inr (u, w) \<Rightarrow> w)"

text \<open>The documents handed to the store by the write calls of a trace.\<close>

fun payload :: "call \<times> outcome \<Rightarrow> doc_data list" where
  "payload (AddDoc d, out) = [d]"
| "payload (UpdateDoc i d, out) = [d]"
| "payload (c, out) = []"

section \<open>Validation\<close>

text \<open>
  C5. \<^verbatim>\<open>validateForm\<close> returns true exactly when none of title, className, section,
  description and url is the empty string.
\<close>

theorem validateForm_iff:
  "validateForm fd =
     (form_title fd \<noteq> [] \<and> form_className fd \<noteq> [] \<and> form_section fd \<noteq> [] \<and>
      form_description fd \<noteq> [] \<and> form_url fd \<noteq> []) \<and>
   (\<not> validateForm fd) =
     (form_title fd = [] \<or> form_className fd = [] \<or> form_section fd = [] \<or>
      form_description fd = [] \<or> form_url fd = [])"
  by (auto simp add: validateForm_def)

section \<open>What the functions compute\<close>

lemma logActivity_eq:
  "logActivity a e d u w =
     Inr ((), if faulty w
        then w\<lparr>calls := calls w @
                 [(AddLog \<lparr>actionType = a, entity = e, log_description = d,
                            timestamp = clock w, userId = u\<rparr>, Failed)],
               console := console w @ [ErrExn ''Error logging activity:'' FirestoreError]\<rparr>
        else w\<lparr>activityLogs := activityLogs w @
                 [\<lparr>actionType = a, entity = e, log_description = d,
                   timestamp = clock w, userId = u\<rparr>],
               calls := calls w @
                 [(AddLog \<lparr>actionType = a, entity = e, log_description = d,
                            timestamp = clock w, userId = u\<rparr>, Succeeded)],
               console := console w @ [Info ''Activity logged successfully!'']\<rparr>)"
  by (simp add: logActivity_def try_catch_def and_then_def addLog_def record_call_def
      console_write_def faulty_def)

lemma fetchEntries_eq:
  assumes "teacherId_st w = Some t" and "t \<noteq> []"
  shows "fetchEntries w =
     Inr ((), if faulty w
        then w\<lparr>calls := calls w @ [(GetDocs t, Failed)],
               console := console w @ [ErrExn ''Error fetching entries:'' FirestoreError]\<rparr>
        else (case forEach emptyEntries
                     (filter (\<lambda>(i, d). teacherId d = t) (teachingLearning w)) of
                Inl e \<Rightarrow> w\<lparr>calls := calls w @ [(GetDocs t, Succeeded)],
                            console := console w @ [ErrExn ''Error fetching entries:'' e]\<rparr>
              | Inr updatedEntries \<Rightarrow>
                  w\<lparr>entries := updatedEntries,
                    calls := calls w @ [(GetDocs t, Succeeded)]\<rparr>))"
  using assms
  by (simp add: fetchEntries_def try_catch_def and_then_def getDocs_def record_call_def
      console_write_def setEntries_def split: sum.splits)

lemma fetchEntries_unresolved:
  "\<not> truthy (teacherId_st w) \<Longrightarrow> fetchEntries w = Inr ((), w)"
  by (simp add: fetchEntries_def truthy_def split: option.splits)

lemma addOrUpdateEntry_unresolved:
  "\<not> truthy (teacherId_st w) \<Longrightarrow>
   addOrUpdateEntry cat ttl cls sec descr link entryId w = Inr ((), w)"
  by (simp add: addOrUpdateEntry_def truthy_def split: option.splits)

lemma truthy_Some: "truthy v \<Longrightarrow> \<exists>t. v = Some t \<and> t \<noteq> []"
  by (cases v) (simp_all add: truthy_def)

lemmas op_defs = addOrUpdateEntry_def try_catch_def and_then_def addDoc_def updateDoc_def
  deleteDoc_def record_call_def logActivity_eq not_awaited_def fetchEntries_eq
  user_id_opt_def faulty_def Let_def console_write_def handleDelete_def

lemmas run_defs = handleAddOrUpdate_def onAddOrUpdate_def world_after_def exampleWorld_def
  exampleDoc_def exampleForm_def addOrUpdateEntry_def try_catch_def and_then_def addDoc_def
  updateDoc_def deleteDoc_def getDoc_def getDocs_def addLog_def logActivity_def
  record_call_def faulty_def truthy_def not_awaited_def fetchEntries_def fresh_id_def
  user_id_opt_def emptyEntries_def push_doc_def js_lookup_def Let_def console_write_def
  setEntries_def setTeacherId_def handleDelete_def fetchTeacherId_def initialCard_def
  emptyForm_def newEntryOf_def mutationOf_def auditRecord_def toEntry_def storedWorld_def

section \<open>The query and its four buckets\<close>

lemma forEach_buckets:
  assumes "\<forall>x \<in> set docs. category (snd x) \<notin> set object_prototype_keys"
  shows "forEach [(''Course Design'', a), (''Pedagogical Innovations'', b),
                  (''Student Feedback'', c), (''Academic Results'', d)] docs =
         Inr [(''Course Design'',
               a @ map toEntry (filter (\<lambda>x. category (snd x) = ''Course Design'') docs)),
              (''Pedagogical Innovations'',
               b @ map toEntry
                     (filter (\<lambda>x. category (snd x) = ''Pedagogical Innovations'') docs)),
              (''Student Feedback'',
               c @ map toEntry (filter (\<lambda>x. category (snd x) = ''Student Feedback'') docs)),
              (''Academic Results'',
               d @ map toEntry (filter (\<lambda>x. category (snd x) = ''Academic Results'') docs))]"
  using assms
proof (induction docs arbitrary: a b c d)
  case Nil
  then show ?case by simp
next
  case (Cons x xs)
  then show ?case
    by (simp add: push_doc_def js_lookup_def)
qed

lemma forEach_inherited:
  assumes "\<exists>x \<in> set docs. category (snd x) \<in> set object_prototype_keys"
  shows "forEach [(''Course Design'', a), (''Pedagogical Innovations'', b),
                  (''Student Feedback'', c), (''Academic Results'', d)] docs = Inl TypeError"
  using assms
proof (induction docs arbitrary: a b c d)
  case Nil
  then show ?case by simp
next
  case (Cons x xs)
  show ?case
  proof (cases "category (snd x) \<in> set object_prototype_keys")
    case True
    then show ?thesis
      by (auto simp add: push_doc_def js_lookup_def object_prototype_keys_def)
  next
    case False
    with Cons.prems have "\<exists>x \<in> set xs. category (snd x) \<in> set object_prototype_keys"
      by auto
    then show ?thesis
      using False Cons.IH by (simp add: push_doc_def js_lookup_def)
  qed
qed

text \<open>
  When the query succeeds and no returned document has a category that names a member
  of \<^verbatim>\<open>Object.prototype\<close>, the new state holds, for each of the four names, exactly the
  returned documents of that category, in the order returned; every other document is
  in no bucket.
\<close>

lemma fetchEntries_partition:
  assumes "teacherId_st w = Some t" and "t \<noteq> []" and "\<not> faulty w"
    and "\<forall>x \<in> set (teachingLearning w).
           teacherId (snd x) = t \<longrightarrow> category (snd x) \<notin> set object_prototype_keys"
  shows "fetchEntries w =
     Inr ((), w\<lparr>entries :=
                  map (\<lambda>k. (k, map toEntry
                                 (filter (\<lambda>x. teacherId (snd x) = t \<and> category (snd x) = k)
                                    (teachingLearning w))))
                    bucket_names,
                calls := calls w @ [(GetDocs t, Succeeded)]\<rparr>)"
proof -
  let ?docs = "filter (\<lambda>(i, d). teacherId d = t) (teachingLearning w)"
  have "\<forall>x \<in> set ?docs. category (snd x) \<notin> set object_prototype_keys"
    using assms(4) by auto
  from forEach_buckets [OF this, of "[]" "[]" "[]" "[]"]
  have "forEach emptyEntries ?docs =
     Inr (map (\<lambda>k. (k, map toEntry
                        (filter (\<lambda>x. teacherId (snd x) = t \<and> category (snd x) = k)
                           (teachingLearning w))))
            bucket_names)"
    by (simp add: emptyEntries_def bucket_names_def case_prod_unfold conj_commute)
  then show ?thesis
    using assms(1-3) by (simp add: fetchEntries_eq)
qed

text \<open>So the card of a category is given exactly the returned documents of that
  category, and a document of any other category reaches no card.\<close>

lemma fetchEntries_bucket_of_category:
  assumes "teacherId_st w = Some t" and "t \<noteq> []" and "\<not> faulty w"
    and "\<forall>x \<in> set (teachingLearning w).
           teacherId (snd x) = t \<longrightarrow> category (snd x) \<notin> set object_prototype_keys"
  shows "bucket (entries (world_after (fetchEntries w))) k =
     (if k \<in> set bucket_names
      then map toEntry
             (filter (\<lambda>x. teacherId (snd x) = t \<and> category (snd x) = k) (teachingLearning w))
      else [])"
  by (simp add: fetchEntries_partition [OF assms] world_after_def bucket_def
      bucket_names_def)

text \<open>
  C1. The claim: every returned entry lands in the bucket named by its category, an
  entry of any other category is silently left out, and the four new buckets replace the
  state. The code at a query result holding one entry of category \<^verbatim>\<open>Course Design\<close> and
  one of category \<^verbatim>\<open>constructor\<close>: \<^verbatim>\<open>updatedEntries["constructor"]\<close> is the inherited
  constructor function, which is truthy and has no \<^verbatim>\<open>push\<close>, so the callback throws a
  \<^verbatim>\<open>TypeError\<close>; the \<^verbatim>\<open>catch\<close> logs it and \<^verbatim>\<open>setEntries\<close> is not reached. The state
  stays as it was, and the entry of category \<^verbatim>\<open>Course Design\<close> is in no bucket.
\<close>

theorem fetchEntries_inherited_category:
  "fetchEntries
     (exampleWorld\<lparr>teachingLearning :=
        [(''e1'', exampleDoc ''Course Design''), (''e2'', exampleDoc ''constructor'')]\<rparr>) =
   Inr ((), exampleWorld\<lparr>teachingLearning :=
              [(''e1'', exampleDoc ''Course Design''), (''e2'', exampleDoc ''constructor'')],
            calls := [(GetDocs ''u1'', Succeeded)],
            console := [ErrExn ''Error fetching entries:'' TypeError]\<rparr>) \<and>
   bucket (entries exampleWorld) ''Course Design'' = []"
  by (simp add: fetchEntries_def exampleWorld_def exampleDoc_def try_catch_def and_then_def
      getDocs_def faulty_def record_call_def emptyEntries_def push_doc_def js_lookup_def
      object_prototype_keys_def console_write_def bucket_def toEntry_def)

text \<open>
  C4. If the query of \<^verbatim>\<open>fetchEntries\<close> fails, the error is caught and logged, and the
  state \<^verbatim>\<open>entries\<close> is exactly what it was before.
\<close>

theorem fetchEntries_query_failure:
  assumes "teacherId_st w = Some t" and "t \<noteq> []" and "faulty w"
  shows "\<exists>w'. fetchEntries w = Inr ((), w') \<and> entries w' = entries w \<and>
           console w' = console w @ [ErrExn ''Error fetching entries:'' FirestoreError] \<and>
           unhandled w' = unhandled w"
  using assms by (simp add: fetchEntries_eq)

theorem fetchEntries_query_failure_witness:
  "\<exists>w'. fetchEntries
          (exampleWorld\<lparr>entries :=
             [(''Course Design'', [toEntry (''e1'', exampleDoc ''Course Design'')])],
             faults := [0]\<rparr>) = Inr ((), w') \<and>
        entries w' = [(''Course Design'', [toEntry (''e1'', exampleDoc ''Course Design'')])] \<and>
        console w' = [ErrExn ''Error fetching entries:'' FirestoreError]"
  using fetchEntries_query_failure
    [of "exampleWorld\<lparr>entries :=
           [(''Course Design'', [toEntry (''e1'', exampleDoc ''Course Design'')])],
           faults := [0]\<rparr>" "''u1''"]
  by (auto simp add: exampleWorld_def faulty_def)

section \<open>Saving\<close>

text \<open>
  C9. While the teacher identifier is \<^verbatim>\<open>null\<close>, \<^verbatim>\<open>addOrUpdateEntry\<close> changes nothing,
  whatever its arguments: the world it returns is the one it was given, so no call is
  issued (no store write, no audit record, no re-fetch).
\<close>

theorem addOrUpdateEntry_noop_unresolved:
  assumes "teacherId_st w = None"
  shows "addOrUpdateEntry cat ttl cls sec descr link entryId w = Inr ((), w)"
  using assms by (simp add: addOrUpdateEntry_def)

theorem addOrUpdateEntry_noop_unresolved_witness:
  "addOrUpdateEntry ''Course Design'' ''Flipped Classroom'' ''2nd Year'' ''B'' ''notes''
     ''https://example.com/doc'' (Some ''e1'') (exampleWorld\<lparr>teacherId_st := None\<rparr>) =
   Inr ((), exampleWorld\<lparr>teacherId_st := None\<rparr>)"
  using addOrUpdateEntry_noop_unresolved [of "exampleWorld\<lparr>teacherId_st := None\<rparr>"]
  by simp

text \<open>
  C2. The save path does not consult \<^verbatim>\<open>validateForm\<close>. As amended: once the teacher
  identifier is resolved, every click on \<^verbatim>\<open>Save\<close>, whatever the form holds (blank fields
  included), issues the store mutation as its first call: an \<^verbatim>\<open>addDoc\<close> when the form
  has no id, an \<^verbatim>\<open>updateDoc\<close> of that id otherwise; and when an \<^verbatim>\<open>addDoc\<close> succeeds
  the collection holds the new document with the form's fields as they are.
\<close>

theorem save_skips_validation:
  assumes "teacherId_st w = Some t" and "t \<noteq> []"
  shows "\<exists>w' out rest.
           snd (handleAddOrUpdate cat c w) = Inr ((), w') \<and>
           calls w' = calls w @ (mutationOf cat (formData c) t, out) # rest \<and>
           (out = Succeeded \<and> form_id (formData c) = [] \<longrightarrow>
              teachingLearning w' = teachingLearning w @
                [(fresh_id (teachingLearning w),
                  newEntryOf cat (form_title (formData c)) (form_className (formData c))
                    (form_section (formData c)) (form_description (formData c))
                    (form_url (formData c)) t)])"
  using assms
  by (cases "length (calls w) \<in> set (faults w)";
      cases "Suc (length (calls w)) \<in> set (faults w)";
      cases "Suc (Suc (length (calls w))) \<in> set (faults w)";
      auto simp add: handleAddOrUpdate_def onAddOrUpdate_def op_defs mutationOf_def
        newEntryOf_def truthy_def split: sum.splits)

text \<open>A form with every field blank fails \<^verbatim>\<open>validateForm\<close> and is stored all the same.\<close>

theorem save_skips_validation_witness:
  "\<not> validateForm emptyForm \<and>
   (\<exists>w' rest.
      snd (handleAddOrUpdate ''Course Design'' initialCard exampleWorld) = Inr ((), w') \<and>
      calls w' =
        (AddDoc (newEntryOf ''Course Design'' [] [] [] [] [] ''u1''), Succeeded) # rest \<and>
      teachingLearning w' = [(''x'', newEntryOf ''Course Design'' [] [] [] [] [] ''u1'')])"
proof -
  have h: "teacherId_st exampleWorld = Some ''u1''" "''u1'' \<noteq> []"
    by (simp_all add: exampleWorld_def)
  have v: "\<not> validateForm emptyForm"
    by (simp add: validateForm_def emptyForm_def)
  from save_skips_validation [OF h, of "''Course Design''" initialCard]
  obtain w' out rest where
    w': "snd (handleAddOrUpdate ''Course Design'' initialCard exampleWorld) = Inr ((), w')"
      "calls w' = calls exampleWorld @
         (mutationOf ''Course Design'' (formData initialCard) ''u1'', out) # rest"
      "out = Succeeded \<and> form_id (formData initialCard) = [] \<longrightarrow>
         teachingLearning w' = teachingLearning exampleWorld @
           [(fresh_id (teachingLearning exampleWorld),
             newEntryOf ''Course Design'' (form_title (formData initialCard))
               (form_className (formData initialCard)) (form_section (formData initialCard))
               (form_description (formData initialCard)) (form_url (formData initialCard))
               ''u1'')]"
    by blast
  have "out = Succeeded"
    using w'(1,2) by (auto simp add: run_defs)
  with w' v show ?thesis
    by (auto simp add: initialCard_def emptyForm_def exampleWorld_def mutationOf_def
        fresh_id_def)
qed

text \<open>As stated the claim fails: with the teacher identifier still \<^verbatim>\<open>null\<close>, a click on
  \<^verbatim>\<open>Save\<close> issues no call at all.\<close>

theorem save_unresolved_counterexample:
  "snd (handleAddOrUpdate ''Course Design'' (initialCard\<lparr>formData := exampleForm\<rparr>)
          (exampleWorld\<lparr>teacherId_st := None\<rparr>)) =
     Inr ((), exampleWorld\<lparr>teacherId_st := None\<rparr>) \<and>
   calls (exampleWorld\<lparr>teacherId_st := None\<rparr>) = []"
  by (simp add: handleAddOrUpdate_def onAddOrUpdate_def not_awaited_def
      addOrUpdateEntry_def exampleWorld_def)

lemma addOrUpdateEntry_writes:
  assumes "teacherId_st w = Some t" and "t \<noteq> []"
  shows "\<exists>w'. addOrUpdateEntry cat ttl cls sec descr link entryId w = Inr ((), w') \<and>
     (\<forall>d \<in> set (concat (map payload (drop (length (calls w)) (calls w')))).
        d = newEntryOf cat ttl cls sec descr link t) \<and>
     (\<forall>x \<in> set (teachingLearning w').
        x \<in> set (teachingLearning w) \<or> snd x = newEntryOf cat ttl cls sec descr link t) \<and>
     (\<forall>i. entryId = Some i \<and> i \<noteq> [] \<and> \<not> faulty w \<and>
          i \<in> fst ` set (teachingLearning w) \<longrightarrow>
          map fst (teachingLearning w') = map fst (teachingLearning w) \<and>
          (\<forall>x \<in> set (teachingLearning w').
             if fst x = i then snd x = newEntryOf cat ttl cls sec descr link t
             else x \<in> set (teachingLearning w)))"
proof (cases "truthy entryId")
  case False
  then have "\<forall>i. entryId = Some i \<longrightarrow> i = []"
    by (simp add: truthy_def split: option.splits)
  then show ?thesis
    using assms False
    by (cases "length (calls w) \<in> set (faults w)";
        cases "Suc (length (calls w)) \<in> set (faults w)";
        cases "Suc (Suc (length (calls w))) \<in> set (faults w)";
        auto simp add: op_defs newEntryOf_def split: sum.splits)
next
  case True
  then obtain i where i: "entryId = Some i" "i \<noteq> []"
    using truthy_Some by blast
  show ?thesis
    using assms True i
    by (cases "length (calls w) \<in> set (faults w)";
        cases "i \<in> fst ` set (teachingLearning w)";
        cases "Suc (length (calls w)) \<in> set (faults w)";
        cases "Suc (Suc (length (calls w))) \<in> set (faults w)";
        auto simp add: op_defs newEntryOf_def split: sum.splits if_splits)
qed

text \<open>
  C10. With the teacher identifier resolved to \<open>t\<close>, every document \<^verbatim>\<open>addOrUpdateEntry\<close>
  hands to the store has \<^verbatim>\<open>teacherId\<close> \<open>t\<close> and the category it was called with, and so
  has every document of the collection that was not there before; the card of category
  \<open>cat\<close> calls it with \<open>cat\<close>, whatever its form holds. A successful update keeps the
  documents and their order, and the document of the given id then has exactly the seven
  fields of \<^verbatim>\<open>newEntry\<close>.
\<close>

theorem written_documents_owner_and_category:
  assumes "teacherId_st w = Some t" and "t \<noteq> []"
  shows "(\<exists>w'. addOrUpdateEntry cat ttl cls sec descr link entryId w = Inr ((), w') \<and>
      (\<forall>d \<in> set (concat (map payload (drop (length (calls w)) (calls w')))).
         teacherId d = t \<and> category d = cat) \<and>
      (\<forall>x \<in> set (teachingLearning w').
         x \<in> set (teachingLearning w) \<or> (teacherId (snd x) = t \<and> category (snd x) = cat)) \<and>
      (\<forall>i. entryId = Some i \<and> i \<noteq> [] \<and> \<not> faulty w \<and>
           i \<in> fst ` set (teachingLearning w) \<longrightarrow>
           map fst (teachingLearning w') = map fst (teachingLearning w) \<and>
           (\<forall>x \<in> set (teachingLearning w').
              if fst x = i
              then snd x = \<lparr>category = cat, title = ttl, className = cls, section_field = sec,
                             description = descr, url = link, teacherId = t\<rparr>
              else x \<in> set (teachingLearning w)))) \<and>
    (\<exists>w'. snd (handleAddOrUpdate cat c w) = Inr ((), w') \<and>
      (\<forall>d \<in> set (concat (map payload (drop (length (calls w)) (calls w')))).
         teacherId d = t \<and> category d = cat))"
proof
  from addOrUpdateEntry_writes [OF assms, of cat ttl cls sec descr link entryId]
  obtain w' where r: "addOrUpdateEntry cat ttl cls sec descr link entryId w = Inr ((), w')"
    and p: "\<forall>d \<in> set (concat (map payload (drop (length (calls w)) (calls w')))).
        d = newEntryOf cat ttl cls sec descr link t"
    and q: "\<forall>x \<in> set (teachingLearning w').
        x \<in> set (teachingLearning w) \<or> snd x = newEntryOf cat ttl cls sec descr link t"
    and u: "\<forall>i. entryId = Some i \<and> i \<noteq> [] \<and> \<not> faulty w \<and>
          i \<in> fst ` set (teachingLearning w) \<longrightarrow>
          map fst (teachingLearning w') = map fst (teachingLearning w) \<and>
          (\<forall>x \<in> set (teachingLearning w').
             if fst x = i then snd x = newEntryOf cat ttl cls sec descr link t
             else x \<in> set (teachingLearning w))"
    by blast
  have f: "teacherId (newEntryOf cat ttl cls sec descr link t) = t"
    "category (newEntryOf cat ttl cls sec descr link t) = cat"
    by (simp_all add: newEntryOf_def)
  from p f have p': "\<forall>d \<in> set (concat (map payload (drop (length (calls w)) (calls w')))).
         teacherId d = t \<and> category d = cat"
    by metis
  from q f have q': "\<forall>x \<in> set (teachingLearning w').
         x \<in> set (teachingLearning w) \<or> (teacherId (snd x) = t \<and> category (snd x) = cat)"
    by metis
  from r p' q' u
  show "\<exists>w'. addOrUpdateEntry cat ttl cls sec descr link entryId w = Inr ((), w') \<and>
      (\<forall>d \<in> set (concat (map payload (drop (length (calls w)) (calls w')))).
         teacherId d = t \<and> category d = cat) \<and>
      (\<forall>x \<in> set (teachingLearning w').
         x \<in> set (teachingLearning w) \<or> (teacherId (snd x) = t \<and> category (snd x) = cat)) \<and>
      (\<forall>i. entryId = Some i \<and> i \<noteq> [] \<and> \<not> faulty w \<and>
           i \<in> fst ` set (teachingLearning w) \<longrightarrow>
           map fst (teachingLearning w') = map fst (teachingLearning w) \<and>
           (\<forall>x \<in> set (teachingLearning w').
              if fst x = i
              then snd x = \<lparr>category = cat, title = ttl, className = cls, section_field = sec,
                             description = descr, url = link, teacherId = t\<rparr>
              else x \<in> set (teachingLearning w)))"
    unfolding newEntryOf_def by blast
next
  obtain w' where w': "addOrUpdateEntry cat (form_title (formData c))
        (form_className (formData c)) (form_section (formData c))
        (form_description (formData c)) (form_url (formData c))
        (if form_id (formData c) \<noteq> [] then Some (form_id (formData c)) else None) w
      = Inr ((), w')"
    "\<forall>d \<in> set (concat (map payload (drop (length (calls w)) (calls w')))).
        d = newEntryOf cat (form_title (formData c))
        (form_className (formData c)) (form_section (formData c))
        (form_description (formData c)) (form_url (formData c)) t"
    using addOrUpdateEntry_writes [OF assms] by blast
  have "teacherId (newEntryOf cat (form_title (formData c))
        (form_className (formData c)) (form_section (formData c))
        (form_description (formData c)) (form_url (formData c)) t) = t"
    "category (newEntryOf cat (form_title (formData c))
        (form_className (formData c)) (form_section (formData c))
        (form_description (formData c)) (form_url (formData c)) t) = cat"
    by (simp_all add: newEntryOf_def)
  with w'(2) have "\<forall>d \<in> set (concat (map payload (drop (length (calls w)) (calls w')))).
         teacherId d = t \<and> category d = cat"
    by metis
  with w'(1)
  show "\<exists>w'. snd (handleAddOrUpdate cat c w) = Inr ((), w') \<and>
      (\<forall>d \<in> set (concat (map payload (drop (length (calls w)) (calls w')))).
         teacherId d = t \<and> category d = cat)"
    by (simp add: handleAddOrUpdate_def onAddOrUpdate_def not_awaited_def)
qed

theorem written_documents_owner_and_category_witness:
  "\<exists>w'. addOrUpdateEntry ''Student Feedback'' ''T'' ''1st Year'' ''A'' ''d'' ''l'' (Some ''e1'')
          storedWorld = Inr ((), w') \<and>
        teachingLearning w' =
          [(''e1'', \<lparr>category = ''Student Feedback'', title = ''T'', className = ''1st Year'',
                     section_field = ''A'', description = ''d'', url = ''l'',
                     teacherId = ''u1''\<rparr>)]"
proof -
  have h: "teacherId_st storedWorld = Some ''u1''" "''u1'' \<noteq> []"
    by (simp_all add: storedWorld_def exampleWorld_def)
  have g: "\<not> faulty storedWorld" "''e1'' \<in> fst ` set (teachingLearning storedWorld)"
    "map fst (teachingLearning storedWorld) = [''e1'']"
    by (simp_all add: storedWorld_def exampleWorld_def faulty_def)
  from written_documents_owner_and_category [OF h, THEN conjunct1,
      of "''Student Feedback''" "''T''" "''1st Year''" "''A''" "''d''" "''l''" "Some ''e1''"]
  obtain w' where w': "addOrUpdateEntry ''Student Feedback'' ''T'' ''1st Year'' ''A'' ''d'' ''l''
        (Some ''e1'') storedWorld = Inr ((), w')"
    "map fst (teachingLearning w') = [''e1'']"
    "\<forall>x \<in> set (teachingLearning w').
        if fst x = ''e1''
        then snd x = \<lparr>category = ''Student Feedback'', title = ''T'', className = ''1st Year'',
                     section_field = ''A'', description = ''d'', url = ''l'',
                     teacherId = ''u1''\<rparr>
        else x \<in> set (teachingLearning storedWorld)"
    using g by auto
  from w'(2) obtain x where x: "teachingLearning w' = [x]" "fst x = ''e1''"
    by auto
  with w'(3) have "snd x = \<lparr>category = ''Student Feedback'', title = ''T'', className = ''1st Year'',
                     section_field = ''A'', description = ''d'', url = ''l'',
                     teacherId = ''u1''\<rparr>"
    by simp
  with x have "teachingLearning w' = [(''e1'', \<lparr>category = ''Student Feedback'', title = ''T'', className = ''1st Year'',
                     section_field = ''A'', description = ''d'', url = ''l'',
                     teacherId = ''u1''\<rparr>)]"
    by (cases x) simp
  with w'(1) show ?thesis by blast
qed

section \<open>The audit trail\<close>

lemma add_audit:
  assumes "teacherId_st w = Some t" and "t \<noteq> []" and "\<not> faulty w"
    and "\<not> truthy entryId"
  shows "\<exists>w' out out'.
           addOrUpdateEntry cat ttl cls sec descr link entryId w = Inr ((), w') \<and>
           calls w' = calls w @
             [(AddDoc (newEntryOf cat ttl cls sec descr link t), Succeeded),
              (AddLog (auditRecord ''Add'' (describe ''Added a new entry'' ttl cat) w), out),
              (GetDocs t, out')] \<and>
           activityLogs w' =
             (if out = Succeeded
              then activityLogs w @
                [auditRecord ''Add'' (describe ''Added a new entry'' ttl cat) w]
              else activityLogs w)"
  using assms
  by (cases "Suc (length (calls w)) \<in> set (faults w)";
      cases "Suc (Suc (length (calls w))) \<in> set (faults w)";
      auto simp add: op_defs auditRecord_def newEntryOf_def split: sum.splits)

lemma edit_audit:
  assumes "teacherId_st w = Some t" and "t \<noteq> []" and "\<not> faulty w"
    and "i \<noteq> []" and "i \<in> fst ` set (teachingLearning w)"
  shows "\<exists>w' out out'.
           addOrUpdateEntry cat ttl cls sec descr link (Some i) w = Inr ((), w') \<and>
           calls w' = calls w @
             [(UpdateDoc i (newEntryOf cat ttl cls sec descr link t), Succeeded),
              (AddLog (auditRecord ''Edit'' (describe ''Edited an entry'' ttl cat) w), out),
              (GetDocs t, out')] \<and>
           activityLogs w' =
             (if out = Succeeded
              then activityLogs w @
                [auditRecord ''Edit'' (describe ''Edited an entry'' ttl cat) w]
              else activityLogs w)"
  using assms
  by (cases "Suc (length (calls w)) \<in> set (faults w)";
      cases "Suc (Suc (length (calls w))) \<in> set (faults w)";
      auto simp add: op_defs auditRecord_def newEntryOf_def truthy_def split: sum.splits)

lemma delete_audit:
  assumes ok: "\<not> faulty w"
  shows "\<exists>w' out rest.
           handleDelete i ttl cat w = Inr ((), w') \<and>
           calls w' = calls w @
             [(DeleteDoc i, Succeeded),
              (AddLog (auditRecord ''Delete'' (describe ''Deleted an entry'' ttl cat) w), out)]
             @ rest \<and>
           (if truthy (teacherId_st w)
            then \<exists>t out'. teacherId_st w = Some t \<and> rest = [(GetDocs t, out')]
            else rest = []) \<and>
           activityLogs w' =
             (if out = Succeeded
              then activityLogs w @
                [auditRecord ''Delete'' (describe ''Deleted an entry'' ttl cat) w]
              else activityLogs w)"
proof (cases "truthy (teacherId_st w)")
  case False
  then show ?thesis
    using ok
    by (cases "Suc (length (calls w)) \<in> set (faults w)";
        auto simp add: op_defs auditRecord_def fetchEntries_unresolved)
next
  case True
  then obtain t where t: "teacherId_st w = Some t" "t \<noteq> []"
    using truthy_Some by blast
  then show ?thesis
    using ok True
    by (cases "Suc (length (calls w)) \<in> set (faults w)";
        cases "Suc (Suc (length (calls w))) \<in> set (faults w)";
        auto simp add: op_defs auditRecord_def split: sum.splits)
qed

text \<open>
  C3, as amended. After a store mutation that succeeded, exactly one append to
  \<^verbatim>\<open>activityLogs\<close> is attempted, as the next call and before the re-fetch query: its
  record has actionType \<^verbatim>\<open>Add\<close> when no identifier was supplied, \<^verbatim>\<open>Edit\<close> when one was,
  \<^verbatim>\<open>Delete\<close> for a delete, entity \<^verbatim>\<open>TeachingLearning\<close> and the session user's id (null
  when there is none). The record joins the collection when that append succeeds; when it
  fails the collection is unchanged. After a delete the re-fetch query is issued only if
  a teacher identifier is resolved.
\<close>

theorem audit_after_mutation:
  "(teacherId_st w = Some t \<and> t \<noteq> [] \<and> \<not> faulty w \<and> \<not> truthy entryId \<longrightarrow>
      (\<exists>w' out out'.
         addOrUpdateEntry cat ttl cls sec descr link entryId w = Inr ((), w') \<and>
         calls w' = calls w @
           [(AddDoc (newEntryOf cat ttl cls sec descr link t), Succeeded),
            (AddLog (auditRecord ''Add'' (describe ''Added a new entry'' ttl cat) w), out),
            (GetDocs t, out')] \<and>
         activityLogs w' =
           (if out = Succeeded
            then activityLogs w @
              [auditRecord ''Add'' (describe ''Added a new entry'' ttl cat) w]
            else activityLogs w))) \<and>
   (teacherId_st w = Some t \<and> t \<noteq> [] \<and> \<not> faulty w \<and> i \<noteq> [] \<and>
    i \<in> fst ` set (teachingLearning w) \<longrightarrow>
      (\<exists>w' out out'.
         addOrUpdateEntry cat ttl cls sec descr link (Some i) w = Inr ((), w') \<and>
         calls w' = calls w @
           [(UpdateDoc i (newEntryOf cat ttl cls sec descr link t), Succeeded),
            (AddLog (auditRecord ''Edit'' (describe ''Edited an entry'' ttl cat) w), out),
            (GetDocs t, out')] \<and>
         activityLogs w' =
           (if out = Succeeded
            then activityLogs w @
              [auditRecord ''Edit'' (describe ''Edited an entry'' ttl cat) w]
            else activityLogs w))) \<and>
   (\<not> faulty w \<longrightarrow>
      (\<exists>w' out rest.
         handleDelete i ttl cat w = Inr ((), w') \<and>
         calls w' = calls w @
           [(DeleteDoc i, Succeeded),
            (AddLog (auditRecord ''Delete'' (describe ''Deleted an entry'' ttl cat) w), out)]
           @ rest \<and>
         (if truthy (teacherId_st w)
          then \<exists>t out'. teacherId_st w = Some t \<and> rest = [(GetDocs t, out')]
          else rest = []) \<and>
         activityLogs w' =
           (if out = Succeeded
            then activityLogs w @
              [auditRecord ''Delete'' (describe ''Deleted an entry'' ttl cat) w]
            else activityLogs w)))"
proof (intro conjI impI)
  show "\<exists>w' out out'.
         addOrUpdateEntry cat ttl cls sec descr link entryId w = Inr ((), w') \<and>
         calls w' = calls w @
           [(AddDoc (newEntryOf cat ttl cls sec descr link t), Succeeded),
            (AddLog (auditRecord ''Add'' (describe ''Added a new entry'' ttl cat) w), out),
            (GetDocs t, out')] \<and>
         activityLogs w' =
           (if out = Succeeded
            then activityLogs w @
              [auditRecord ''Add'' (describe ''Added a new entry'' ttl cat) w]
            else activityLogs w)"
    if "teacherId_st w = Some t \<and> t \<noteq> [] \<and> \<not> faulty w \<and> \<not> truthy entryId"
    using that add_audit by blast
  show "\<exists>w' out out'.
         addOrUpdateEntry cat ttl cls sec descr link (Some i) w = Inr ((), w') \<and>
         calls w' = calls w @
           [(UpdateDoc i (newEntryOf cat ttl cls sec descr link t), Succeeded),
            (AddLog (auditRecord ''Edit'' (describe ''Edited an entry'' ttl cat) w), out),
            (GetDocs t, out')] \<and>
         activityLogs w' =
           (if out = Succeeded
            then activityLogs w @
              [auditRecord ''Edit'' (describe ''Edited an entry'' ttl cat) w]
            else activityLogs w)"
    if "teacherId_st w = Some t \<and> t \<noteq> [] \<and> \<not> faulty w \<and> i \<noteq> [] \<and>
        i \<in> fst ` set (teachingLearning w)"
    using that edit_audit by blast
  show "\<exists>w' out rest.
         handleDelete i ttl cat w = Inr ((), w') \<and>
         calls w' = calls w @
           [(DeleteDoc i, Succeeded),
            (AddLog (auditRecord ''Delete'' (describe ''Deleted an entry'' ttl cat) w), out)]
           @ rest \<and>
         (if truthy (teacherId_st w)
          then \<exists>t out'. teacherId_st w = Some t \<and> rest = [(GetDocs t, out')]
          else rest = []) \<and>
         activityLogs w' =
           (if out = Succeeded
            then activityLogs w @
              [auditRecord ''Delete'' (describe ''Deleted an entry'' ttl cat) w]
            else activityLogs w)"
    if "\<not> faulty w"
    using that by (rule delete_audit)
qed

theorem audit_after_mutation_witness:
  "(\<exists>w' out out'.
      addOrUpdateEntry ''Student Feedback'' ''T'' ''1st Year'' ''A'' ''d'' ''l'' None storedWorld
        = Inr ((), w') \<and>
      calls w' =
        [(AddDoc (newEntryOf ''Student Feedback'' ''T'' ''1st Year'' ''A'' ''d'' ''l'' ''u1''),
          Succeeded),
         (AddLog (auditRecord ''Add''
            (describe ''Added a new entry'' ''T'' ''Student Feedback'') storedWorld), out),
         (GetDocs ''u1'', out')]) \<and>
   (\<exists>w' out out'.
      addOrUpdateEntry ''Student Feedback'' ''T'' ''1st Year'' ''A'' ''d'' ''l'' (Some ''e1'')
        storedWorld = Inr ((), w') \<and>
      calls w' =
        [(UpdateDoc ''e1''
            (newEntryOf ''Student Feedback'' ''T'' ''1st Year'' ''A'' ''d'' ''l'' ''u1''),
          Succeeded),
         (AddLog (auditRecord ''Edit''
            (describe ''Edited an entry'' ''T'' ''Student Feedback'') storedWorld), out),
         (GetDocs ''u1'', out')]) \<and>
   (\<exists>w' out out'.
      handleDelete ''e1'' ''T'' ''Student Feedback'' storedWorld = Inr ((), w') \<and>
      calls w' =
        [(DeleteDoc ''e1'', Succeeded),
         (AddLog (auditRecord ''Delete''
            (describe ''Deleted an entry'' ''T'' ''Student Feedback'') storedWorld), out),
         (GetDocs ''u1'', out')])"
proof -
  have h: "teacherId_st storedWorld = Some ''u1''" "''u1'' \<noteq> []" "\<not> faulty storedWorld"
    "\<not> truthy None" "''e1'' \<noteq> []" "''e1'' \<in> fst ` set (teachingLearning storedWorld)"
    "truthy (teacherId_st storedWorld)" "calls storedWorld = []"
    by (simp_all add: storedWorld_def exampleWorld_def faulty_def truthy_def)
  show ?thesis
    using h audit_after_mutation
      [of storedWorld "''u1''" None "''Student Feedback''" "''T''" "''1st Year''" "''A''"
          "''d''" "''l''" "''e1''"]
    by auto
qed

text \<open>As stated the claim fails: here the \<^verbatim>\<open>addDoc\<close> of the entry succeeds, the append
  to \<^verbatim>\<open>activityLogs\<close> fails and is swallowed by \<^verbatim>\<open>logActivity\<close>, and the re-fetch
  follows; the entry is stored and no audit record exists.\<close>

theorem audit_record_lost_counterexample:
  "teachingLearning
     (world_after (addOrUpdateEntry ''Course Design'' ''Flipped Classroom'' ''2nd Year'' ''B''
        ''notes'' ''https://example.com/doc'' None (exampleWorld\<lparr>faults := [1]\<rparr>))) =
     [(''x'', exampleDoc ''Course Design'')] \<and>
   activityLogs
     (world_after (addOrUpdateEntry ''Course Design'' ''Flipped Classroom'' ''2nd Year'' ''B''
        ''notes'' ''https://example.com/doc'' None (exampleWorld\<lparr>faults := [1]\<rparr>))) = [] \<and>
   map snd (calls
     (world_after (addOrUpdateEntry ''Course Design'' ''Flipped Classroom'' ''2nd Year'' ''B''
        ''notes'' ''https://example.com/doc'' None (exampleWorld\<lparr>faults := [1]\<rparr>)))) =
     [Succeeded, Failed, Succeeded]"
  by (simp add: run_defs fetchEntries_eq)

section \<open>Errors stay inside the module\<close>

lemma swallowed_logActivity: "swallowed w (logActivity a e d u w)"
  by (simp add: swallowed_def logActivity_eq failures_def caught_def)

lemma swallowed_fetchEntries: "swallowed w (fetchEntries w)"
proof (cases "truthy (teacherId_st w)")
  case False
  then show ?thesis by (simp add: fetchEntries_unresolved swallowed_def)
next
  case True
  then obtain t where t: "teacherId_st w = Some t" "t \<noteq> []"
    using truthy_Some by blast
  show ?thesis
    by (simp add: fetchEntries_eq [OF t] swallowed_def failures_def caught_def
        split: sum.splits)
qed

lemma swallowed_fetchTeacherId: "swallowed w (fetchTeacherId w)"
  by (simp add: fetchTeacherId_def try_catch_def and_then_def getDoc_def record_call_def
      console_write_def setTeacherId_def swallowed_def failures_def caught_def
      split: option.splits)

lemma swallowed_handleDelete: "swallowed w (handleDelete i ttl cat w)"
proof (cases "truthy (teacherId_st w)")
  case False
  then show ?thesis
    by (cases "faulty w"; cases "Suc (length (calls w)) \<in> set (faults w)";
        simp add: op_defs fetchEntries_unresolved swallowed_def failures_def caught_def)
next
  case True
  then obtain t where t: "teacherId_st w = Some t" "t \<noteq> []"
    using truthy_Some by blast
  then show ?thesis
    by (cases "length (calls w) \<in> set (faults w)";
        cases "Suc (length (calls w)) \<in> set (faults w)";
        cases "Suc (Suc (length (calls w))) \<in> set (faults w)";
        simp add: op_defs swallowed_def failures_def caught_def split: sum.splits)
qed

lemma swallowed_addOrUpdateEntry:
  "swallowed w (addOrUpdateEntry cat ttl cls sec descr link entryId w)"
proof (cases "truthy (teacherId_st w)")
  case False
  then show ?thesis
    by (simp add: addOrUpdateEntry_unresolved swallowed_def)
next
  case True
  then obtain t where t: "teacherId_st w = Some t" "t \<noteq> []"
    using truthy_Some by blast
  then show ?thesis
    by (cases "length (calls w) \<in> set (faults w)";
        cases "Suc (length (calls w)) \<in> set (faults w)";
        cases "Suc (Suc (length (calls w))) \<in> set (faults w)";
        simp add: op_defs swallowed_def failures_def caught_def split: sum.splits)
qed

text \<open>
  C8. Each of the five operations that reach the store (teacher lookup, entry fetch,
  add or update, delete, audit append) returns normally from every world, whichever
  remote calls fail: nothing is thrown to the caller, no promise is left rejected, and
  each failed remote call shows as a caught exception on the console.
\<close>

theorem no_exception_escapes:
  "swallowed w (fetchTeacherId w) \<and>
   swallowed w (fetchEntries w) \<and>
   swallowed w (addOrUpdateEntry cat ttl cls sec descr link entryId w) \<and>
   swallowed w (handleDelete i ttl' cat' w) \<and>
   swallowed w (logActivity a e d u w)"
  by (simp add: swallowed_fetchTeacherId swallowed_fetchEntries swallowed_addOrUpdateEntry
      swallowed_handleDelete swallowed_logActivity)

section \<open>An unresolved teacher\<close>

lemma mount_no_user:
  "\<not> truthy (user_id_opt w) \<Longrightarrow> mount w = Inr ((), initialState w)"
  by (simp add: mount_def useEffect_user_def useEffect_teacherId_def initialState_def
      and_then_def user_id_opt_def truthy_def)

lemma mount_no_teacher_doc:
  assumes "user w = Some u" and "user_id u \<notin> set (teachers w)"
  shows "\<exists>w'. mount w = Inr ((), w') \<and> teacherId_st w' = None \<and>
           entries w' = emptyEntries \<and>
           filter is_GetDocs (calls w') = filter is_GetDocs (calls w)"
  using assms
  by (simp add: mount_def useEffect_user_def useEffect_teacherId_def initialState_def
      and_then_def user_id_opt_def truthy_def not_awaited_def fetchTeacherId_def
      try_catch_def getDoc_def record_call_def console_write_def setTeacherId_def)

lemma handleDelete_unresolved:
  assumes "teacherId_st w = None"
  shows "\<exists>w'. handleDelete i ttl cat w = Inr ((), w') \<and> teacherId_st w' = None \<and>
           entries w' = entries w \<and>
           filter is_GetDoc (calls w') = filter is_GetDoc (calls w) \<and>
           filter is_GetDocs (calls w') = filter is_GetDocs (calls w)"
  using assms
  by (cases "faulty w"; cases "Suc (length (calls w)) \<in> set (faults w)";
      simp add: op_defs fetchEntries_unresolved truthy_def)

lemma fire_unresolved:
  assumes "teacherId_st w = None"
  shows "\<exists>w'. fire ev w = Inr ((), w') \<and> teacherId_st w' = None \<and>
           entries w' = entries w \<and>
           filter is_GetDoc (calls w') = filter is_GetDoc (calls w) \<and>
           filter is_GetDocs (calls w') = filter is_GetDocs (calls w)"
proof (cases ev)
  case (ClickSave cat c)
  then show ?thesis
    using assms
    by (simp add: fire_def handleAddOrUpdate_def onAddOrUpdate_def not_awaited_def
        addOrUpdateEntry_def)
next
  case (ClickDelete i ttl cat)
  from handleDelete_unresolved [OF assms, of i ttl cat]
  show ?thesis
    using ClickDelete by (auto simp add: fire_def not_awaited_def)
qed

lemma run_events_unresolved:
  assumes "teacherId_st w = None"
  shows "\<exists>w'. run_events evs w = Inr ((), w') \<and> teacherId_st w' = None \<and>
           entries w' = entries w \<and>
           filter is_GetDoc (calls w') = filter is_GetDoc (calls w) \<and>
           filter is_GetDocs (calls w') = filter is_GetDocs (calls w)"
  using assms
proof (induction evs arbitrary: w)
  case Nil
  then show ?case by simp
next
  case (Cons ev evs)
  from fire_unresolved [OF Cons.prems, of ev]
  obtain w1 where w1: "fire ev w = Inr ((), w1)" "teacherId_st w1 = None"
    "entries w1 = entries w"
    "filter is_GetDoc (calls w1) = filter is_GetDoc (calls w)"
    "filter is_GetDocs (calls w1) = filter is_GetDocs (calls w)"
    by blast
  from Cons.IH [OF w1(2)] w1 show ?case
    by (auto simp add: and_then_def)
qed

text \<open>
  C6. Mount the page and let the user click \<^verbatim>\<open>Save\<close> and \<^verbatim>\<open>Delete\<close> any number of
  times. Without a session user no teacher lookup is ever issued. With a session user
  whose document is not in \<^verbatim>\<open>teachers\<close>, the teacher identifier stays unset, the state
  \<^verbatim>\<open>entries\<close> stays at its four empty buckets, and the entry query is never issued.
\<close>

theorem unresolved_teacher_never_queries:
  "(user w = None \<longrightarrow>
      (\<exists>w'. session_run evs w = Inr ((), w') \<and>
            filter is_GetDoc (calls w') = filter is_GetDoc (calls w))) \<and>
   (user w = Some u \<and> user_id u \<notin> set (teachers w) \<longrightarrow>
      (\<exists>w'. session_run evs w = Inr ((), w') \<and> teacherId_st w' = None \<and>
            entries w' = emptyEntries \<and>
            filter is_GetDocs (calls w') = filter is_GetDocs (calls w)))"
proof (intro conjI impI)
  assume "user w = None"
  then have m: "mount w = Inr ((), initialState w)"
    by (simp add: mount_no_user user_id_opt_def truthy_def)
  have "teacherId_st (initialState w) = None"
    by (simp add: initialState_def)
  from run_events_unresolved [OF this, of evs] m
  show "\<exists>w'. session_run evs w = Inr ((), w') \<and>
            filter is_GetDoc (calls w') = filter is_GetDoc (calls w)"
    by (auto simp add: session_run_def and_then_def initialState_def)
next
  assume "user w = Some u \<and> user_id u \<notin> set (teachers w)"
  then obtain w1 where w1: "mount w = Inr ((), w1)" "teacherId_st w1 = None"
    "entries w1 = emptyEntries"
    "filter is_GetDocs (calls w1) = filter is_GetDocs (calls w)"
    using mount_no_teacher_doc by blast
  from run_events_unresolved [OF w1(2), of evs] w1
  show "\<exists>w'. session_run evs w = Inr ((), w') \<and> teacherId_st w' = None \<and>
            entries w' = emptyEntries \<and>
            filter is_GetDocs (calls w') = filter is_GetDocs (calls w)"
    by (auto simp add: session_run_def and_then_def)
qed

theorem unresolved_teacher_never_queries_witness:
  "(\<exists>w'. session_run exampleClicks (exampleWorld\<lparr>user := None\<rparr>) = Inr ((), w') \<and>
         filter is_GetDoc (calls w') = []) \<and>
   (\<exists>w'. session_run exampleClicks (exampleWorld\<lparr>teachers := []\<rparr>) = Inr ((), w') \<and>
         teacherId_st w' = None \<and> entries w' = emptyEntries \<and>
         filter is_GetDocs (calls w') = [])"
  using unresolved_teacher_never_queries
      [of "exampleWorld\<lparr>user := None\<rparr>" exampleClicks]
    unresolved_teacher_never_queries
      [of "exampleWorld\<lparr>teachers := []\<rparr>" exampleClicks "\<lparr>user_id = ''u1''\<rparr>"]
  by (simp add: exampleWorld_def)

section \<open>The form of a card\<close>

lemma handleAddOrUpdate_clears_form:
  "fst (handleAddOrUpdate cat c w) = c\<lparr>formData := emptyForm, showForm := False\<rparr>"
  by (simp add: handleAddOrUpdate_def)

lemma cancelForm_closes_only:
  "showForm (cancelForm c) = False \<and> formData (cancelForm c) = formData c"
  by (simp add: cancelForm_def)

text \<open>
  C7. The claim: saving and cancelling both reset the form data and close the form.
  Saving does (\<open>handleAddOrUpdate_clears_form\<close>). The code at \<^verbatim>\<open>Cancel\<close>, after
  \<^verbatim>\<open>Edit\<close> on entry \<^verbatim>\<open>e1\<close>: the form is closed and still holds the entry's fields and
  its id. Opening the form again with \<^verbatim>\<open>+\<close> and saving then updates \<^verbatim>\<open>e1\<close> where the
  user asked for a new entry.
\<close>

theorem cancel_keeps_form_data:
  "formData (cancelForm (handleEdit (toEntry (''e1'', exampleDoc ''Course Design'')) initialCard))
     = exampleForm \<and>
   exampleForm \<noteq> emptyForm \<and>
   showForm (cancelForm (handleEdit (toEntry (''e1'', exampleDoc ''Course Design'')) initialCard))
     = False \<and>
   map fst (calls (world_after (snd (handleAddOrUpdate ''Course Design''
      (toggleForm
         (cancelForm (handleEdit (toEntry (''e1'', exampleDoc ''Course Design'')) initialCard)))
      storedWorld)))) =
     [UpdateDoc ''e1'' (exampleDoc ''Course Design''),
      AddLog (auditRecord ''Edit''
        (describe ''Edited an entry'' ''Flipped Classroom'' ''Course Design'') exampleWorld),
      GetDocs ''u1'']"
  by (simp add: run_defs cancelForm_def handleEdit_def toggleForm_def js_or_def)

end
